theory Spec2Isabelle
  imports Complex_Main "HOL-Library.Multiset"
begin

section \<open>JavaScript values used by the front end\<close>

text \<open>
  A JavaScript number is a double: finite, one of the two infinities, or NaN. Only
  finiteness tests, comparisons and the sign of a difference are used by the code below,
  so a finite number is modelled by the real it denotes.
\<close>

datatype jsnum = NaN | PosInf | NegInf | Fin real

text \<open>\<open>Number.isFinite\<close>.\<close>

fun isFinite :: "jsnum \<Rightarrow> bool" where
  "isFinite (Fin x) = True"
| "isFinite NaN = False"
| "isFinite PosInf = False"
| "isFinite NegInf = False"

text \<open>The operator \<open><\<close> on numbers: every comparison with NaN is false.\<close>

fun js_lt :: "jsnum \<Rightarrow> jsnum \<Rightarrow> bool" where
  "js_lt (Fin a) (Fin b) = (a < b)"
| "js_lt NaN y = False"
| "js_lt x NaN = False"
| "js_lt NegInf NegInf = False"
| "js_lt NegInf y = True"
| "js_lt x NegInf = False"
| "js_lt PosInf y = False"
| "js_lt x PosInf = True"

definition js_gt :: "jsnum \<Rightarrow> jsnum \<Rightarrow> bool" where
  "js_gt x y = js_lt y x"

text \<open>Truthiness of a number (0 and NaN are falsy) and of a nullable number.\<close>

fun truthy_num :: "jsnum \<Rightarrow> bool" where
  "truthy_num (Fin x) = (x \<noteq> 0)"
| "truthy_num NaN = False"
| "truthy_num PosInf = True"
| "truthy_num NegInf = True"

fun truthy_opt_num :: "jsnum option \<Rightarrow> bool" where
  "truthy_opt_num None = False"
| "truthy_opt_num (Some n) = truthy_num n"

text \<open>Truthiness of a nullable string: null and the empty string are falsy.\<close>

fun truthy_str :: "string option \<Rightarrow> bool" where
  "truthy_str None = False"
| "truthy_str (Some s) = (s \<noteq> [])"

text \<open>\<open>a || b\<close> on nullable strings.\<close>

definition or_str :: "string option \<Rightarrow> string option \<Rightarrow> string option" where
  "or_str a b = (if truthy_str a then a else b)"

text \<open>A thrown \<open>Error\<close> object; only its message is ever read.\<close>

datatype js_error = Error (message: string)

section \<open>Data received from the server\<close>

record heritage_object =
  obj_id :: int
  name :: string
  address :: string
  district :: "string option"
  object_type :: "string option"
  description :: "string option"
  latitude :: jsnum
  longitude :: jsnum

text \<open>
  One leg of a route (an element of \<open>route.objects\<close>). A \<open>sequence_number\<close> that is
  not a number at all behaves like NaN in every use the code makes of it
  (\<open>Number.isFinite\<close> is false), so it is a \<open>jsnum\<close>; \<open>distance_from_previous\<close> is a
  number or null.
\<close>

record route_leg =
  sequence_number :: jsnum
  object :: heritage_object
  distance_from_previous :: "jsnum option"

record route =
  route_id :: "int option"
  objects :: "route_leg list"
  start_location :: "jsnum \<times> jsnum"
  total_distance :: jsnum
  objects_count :: int
  created_at :: string

text \<open>
  A flag as it may arrive in JSON: a boolean, a number (MySQL stores BOOLEAN as 0 or 1)
  or null, with JavaScript's truthiness.
\<close>

datatype jsflag = FlagBool bool | FlagNum jsnum | FlagNull

fun truthy_flag :: "jsflag \<Rightarrow> bool" where
  "truthy_flag (FlagBool b) = b"
| "truthy_flag (FlagNum n) = truthy_num n"
| "truthy_flag FlagNull = False"

text \<open>An element of the list answered by \<open>GET /routes\<close>.\<close>

record route_summary =
  sum_id :: int
  is_favorite :: jsflag
  sum_start_address :: "string option"
  sum_objects_count :: int
  sum_total_distance :: jsnum
  sum_created_at :: string

text \<open>
  The parsed JSON body of a response, by the shapes the client reads: null, an error
  object (\<open>detail\<close>, \<open>error\<close>), a story object, a route list, a route, or any other
  object.
\<close>

datatype jdata =
    JNull
  | JError "string option" "string option"
  | JStory "string option"
  | JRoutes "route_summary list option"
  | JRoute route
  | JOther

section \<open>The API client\<close>

text \<open>
  The request targets the client builds. The URL templates are kept structured
  instead of being printed into a string.
\<close>

datatype endpoint =
    ObjectStory int
  | BuildRoute jsnum jsnum jsnum string
  | GetRoutes
  | GetRoute int
  | SetRouteFavorite int bool

record http_request =
  target :: endpoint
  authorization :: "string option"

text \<open>
  What \<open>fetch\<close> does with a request: it rejects (network failure), or it resolves with
  a status and a body; the body is \<open>None\<close> when \<open>response.json()\<close> rejects, in which case
  the second component is the message of that rejection.
\<close>

datatype fetch_result =
    NetworkError string
  | Response nat "jdata option" string

text \<open>
  What the page shows. Markup is kept structured: a marker with the lines of its
  balloon, an object card and a history item with the lines of their templates, a line
  that the template leaves out being \<open>None\<close>. A formatted distance is the unit chosen
  and the number printed.
\<close>

datatype distance_text = Metres jsnum | Kilometres jsnum

record marker =
  m_coords :: "jsnum \<times> jsnum"
  m_number :: nat
  m_name :: string
  m_address :: string
  m_type :: "string option"
  m_distance :: "distance_text option"

record object_card =
  c_index :: nat
  c_number :: nat
  c_name :: string
  c_address :: string
  c_district :: "string option"
  c_type :: "string option"
  c_distance :: "distance_text option"
  c_description :: "string option"

record route_results =
  r_objects_count :: int
  r_total_distance :: distance_text
  r_created_at :: string
  r_is_favorite :: bool
  r_cards :: "object_card list"

record history_item =
  h_route_id :: int
  h_address :: string
  h_objects_count :: int
  h_distance :: distance_text
  h_created_at :: string

datatype history_view =
    HistoryUntouched
  | NoFavorites
  | HistoryFailed
  | HistoryItems "history_item list"

record ai_modal =
  modal_title :: string
  modal_body :: string
  modal_hidden :: bool

text \<open>
  The state of the page: the API client (\<open>token\<close>, \<open>user\<close>), the browser
  (\<open>localStorage\<close>, \<open>window.location.href\<close>, the console), the network (the requests
  sent so far and what \<open>fetch\<close> will answer, in order), the globals of the map script,
  and the parts of the document the script reads or writes.
\<close>

record page =
  token :: "string option"
  user :: "string option"
  localStorage :: "string \<Rightarrow> string option"
  location_href :: string
  console_errors :: "js_error list"
  requests :: "http_request list"
  responses :: "fetch_result list"
  markers :: "marker list"
  routeLine :: "(jsnum \<times> jsnum) list option"
  currentRoute :: jdata
  currentStart :: "(jsnum \<times> jsnum) option"
  favoriteRouteIds :: "int set"
  storyCache :: "int \<Rightarrow> string option"
  input_lat :: jsnum
  input_lon :: jsnum
  input_count :: jsnum
  input_address :: string
  message_box :: "(string \<times> string) option"
  loading :: bool
  results :: "route_results option"
  results_hidden :: bool
  routes_list :: "history_view option"
  modal :: "ai_modal option"

text \<open>
  The user-visible texts of the source are Russian; they are named here and written
  in ASCII.
\<close>

definition msg_auth_required :: string where
  "msg_auth_required = ''Authorization required''"

definition msg_request_failed :: string where
  "msg_request_failed = ''Request failed''"

definition msg_null_body :: string where
  "msg_null_body = ''Cannot read properties of null''"

definition msg_fetch_unanswered :: string where
  "msg_fetch_unanswered = ''Failed to fetch''"

text \<open>\<open>APIClient.logout\<close>.\<close>

definition logout :: "page \<Rightarrow> page" where
  "logout s = s\<lparr>token := None, user := None,
      localStorage := (localStorage s)(''auth_token'' := None, ''user'' := None),
      location_href := ''login.html''\<rparr>"

text \<open>\<open>APIClient.isAuthenticated\<close>: \<open>!!this.token\<close>.\<close>

definition isAuthenticated :: "page \<Rightarrow> bool" where
  "isAuthenticated s = truthy_str (token s)"

text \<open>
  \<open>APIClient.getHeaders\<close>: the \<open>Authorization\<close> header is present when the token is
  truthy (the constant \<open>Content-Type\<close> header is left out).
\<close>

definition getHeaders :: "page \<Rightarrow> string option" where
  "getHeaders s = (if truthy_str (token s) then token s else None)"

text \<open>The \<open>catch\<close> block of \<open>request\<close>: log the error and throw it again.\<close>

definition rethrow :: "js_error \<Rightarrow> page \<Rightarrow> (js_error + jdata) \<times> page" where
  "rethrow e s = (Inl e, s\<lparr>console_errors := console_errors s @ [e]\<rparr>)"

text \<open>\<open>response.ok\<close>.\<close>

definition response_ok :: "nat \<Rightarrow> bool" where
  "response_ok st = (200 \<le> st \<and> st \<le> 299)"

text \<open>
  \<open>data.detail || data.error || default\<close>, the message of the error thrown for a
  response that is not ok; reading a property of a null body throws instead.
\<close>

fun failure_message :: "jdata \<Rightarrow> string" where
  "failure_message JNull = msg_null_body"
| "failure_message (JError d e) =
     (case or_str (or_str d e) (Some msg_request_failed) of
        Some m \<Rightarrow> m | None \<Rightarrow> msg_request_failed)"
| "failure_message other = msg_request_failed"

text \<open>
  \<open>APIClient.request\<close>. The request is sent with the client's headers; an exhausted
  list of answers stands for a \<open>fetch\<close> that rejects.
\<close>

definition request :: "endpoint \<Rightarrow> page \<Rightarrow> (js_error + jdata) \<times> page" where
  "request ep s =
     (let s1 = s\<lparr>requests := requests s @ [\<lparr>target = ep, authorization = getHeaders s\<rparr>]\<rparr>
      in case responses s1 of
           [] \<Rightarrow> rethrow (Error msg_fetch_unanswered) s1
         | r # rest \<Rightarrow>
             (let s2 = s1\<lparr>responses := rest\<rparr>
              in case r of
                   NetworkError m \<Rightarrow> rethrow (Error m) s2
                 | Response st body parse_msg \<Rightarrow>
                     if st = 401 then rethrow (Error msg_auth_required) (logout s2)
                     else (case body of
                             None \<Rightarrow> rethrow (Error parse_msg) s2
                           | Some data \<Rightarrow>
                               if \<not> response_ok st
                               then rethrow (Error (failure_message data)) s2
                               else (Inr data, s2))))"

definition getObjectStory :: "int \<Rightarrow> page \<Rightarrow> (js_error + jdata) \<times> page" where
  "getObjectStory i s = request (ObjectStory i) s"

definition api_buildRoute ::
  "jsnum \<times> jsnum \<Rightarrow> jsnum \<Rightarrow> string \<Rightarrow> page \<Rightarrow> (js_error + jdata) \<times> page" where
  "api_buildRoute startLocation objectsCount startAddress s =
     request (BuildRoute (fst startLocation) (snd startLocation) objectsCount startAddress) s"

definition getRoutes :: "page \<Rightarrow> (js_error + jdata) \<times> page" where
  "getRoutes s = request GetRoutes s"

definition setRouteFavorite :: "int \<Rightarrow> bool \<Rightarrow> page \<Rightarrow> (js_error + jdata) \<times> page" where
  "setRouteFavorite i isFavorite s = request (SetRouteFavorite i isFavorite) s"

section \<open>The map script\<close>

definition msg_choose_start :: string where
  "msg_choose_start = ''Please choose a start point on the map''"

definition msg_count_range :: string where
  "msg_count_range = ''The number of objects must be between 2 and 20''"

definition msg_route_built :: string where
  "msg_route_built = ''Route built''"

definition msg_not_iterable :: string where
  "msg_not_iterable = ''route.objects is not iterable''"

definition msg_object :: string where
  "msg_object = ''Object''"

definition msg_preparing_story :: string where
  "msg_preparing_story = ''Preparing the story...''"

definition msg_story_failed :: string where
  "msg_story_failed = ''Could not get the story.''"

definition msg_no_address :: string where
  "msg_no_address = ''No address given''"

text \<open>\<open>showMessage\<close> (the timer that hides the message again is not modelled).\<close>

definition showMessage :: "string \<Rightarrow> string \<Rightarrow> page \<Rightarrow> page" where
  "showMessage text type s = s\<lparr>message_box := Some (text, type)\<rparr>"

definition showLoading :: "bool \<Rightarrow> page \<Rightarrow> page" where
  "showLoading show s = s\<lparr>loading := show\<rparr>"

text \<open>
  \<open>clearRoute\<close>: the line and the markers leave the map, the result panel is hidden.
\<close>

definition clearRoute :: "page \<Rightarrow> page" where
  "clearRoute s = s\<lparr>routeLine := None, markers := [], results_hidden := True\<rparr>"

definition drawStraightRoute :: "(jsnum \<times> jsnum) list \<Rightarrow> page \<Rightarrow> page" where
  "drawStraightRoute routeCoords s = s\<lparr>routeLine := Some routeCoords\<rparr>"

text \<open>
  \<open>Math.round\<close>, division by 1000 and \<open>toFixed(2)\<close> (used on values of at least 1). The
  arithmetic is exact here, where the code rounds the quotient to a double before it is
  printed, so the last printed digit can differ at a tie (1005 m is printed 1.00 by the
  code and is 1.01 here). Nothing below depends on the digits.
\<close>

fun js_round :: "jsnum \<Rightarrow> jsnum" where
  "js_round (Fin x) = Fin (of_int \<lfloor>x + 1 / 2\<rfloor>)"
| "js_round n = n"

fun js_div1000 :: "jsnum \<Rightarrow> jsnum" where
  "js_div1000 (Fin x) = Fin (x / 1000)"
| "js_div1000 n = n"

fun toFixed2 :: "jsnum \<Rightarrow> jsnum" where
  "toFixed2 (Fin x) = Fin (of_int \<lfloor>x * 100 + 1 / 2\<rfloor> / 100)"
| "toFixed2 n = n"

definition formatDistance :: "jsnum \<Rightarrow> distance_text" where
  "formatDistance meters =
     (if js_lt meters (Fin 1000) then Metres (js_round meters)
      else Kilometres (toFixed2 (js_div1000 meters)))"

text \<open>A template line \<open>${x ? line(x) : ''}\<close>.\<close>

definition line_if_str :: "string option \<Rightarrow> string option" where
  "line_if_str x = (if truthy_str x then x else None)"

definition distance_line :: "jsnum option \<Rightarrow> distance_text option" where
  "distance_line d =
     (case d of
        None \<Rightarrow> None
      | Some n \<Rightarrow> if truthy_num n then Some (formatDistance n) else None)"

text \<open>\<open>renderObjectCard\<close>.\<close>

definition renderObjectCard :: "route_leg \<Rightarrow> nat \<Rightarrow> object_card" where
  "renderObjectCard item index =
     (let obj = object item
      in \<lparr>c_index = index,
          c_number = index + 1,
          c_name = name obj,
          c_address = address obj,
          c_district = line_if_str (district obj),
          c_type = line_if_str (object_type obj),
          c_distance = distance_line (distance_from_previous item),
          c_description = line_if_str (description obj)\<rparr>)"

text \<open>The marker that \<open>displayRoute\<close> creates for a leg, with its balloon.\<close>

definition route_marker :: "route_leg \<Rightarrow> nat \<Rightarrow> marker" where
  "route_marker item index =
     (let obj = object item
      in \<lparr>m_coords = (latitude obj, longitude obj),
          m_number = index + 1,
          m_name = name obj,
          m_address = address obj,
          m_type = line_if_str (object_type obj),
          m_distance = distance_line (distance_from_previous item)\<rparr>)"

text \<open>\<open>xs.map((item, index) => f(item, index))\<close>.\<close>

definition map_indexed :: "('a \<Rightarrow> nat \<Rightarrow> 'b) \<Rightarrow> 'a list \<Rightarrow> 'b list" where
  "map_indexed f xs = map (\<lambda>(index, item). f item index) (enumerate 0 xs)"

text \<open>
  \<open>Array.prototype.sort\<close> with a comparator. The sort is stable, and for a consistent
  comparator its result is the one of the insertion sort below: \<open>x\<close> goes before the
  first element it does not compare greater than.
\<close>

fun insert_by :: "('a \<Rightarrow> 'a \<Rightarrow> real) \<Rightarrow> 'a \<Rightarrow> 'a list \<Rightarrow> 'a list" where
  "insert_by cmp x [] = [x]"
| "insert_by cmp x (y # ys) =
     (if cmp x y \<le> 0 then x # y # ys else y # insert_by cmp x ys)"

definition js_sort :: "('a \<Rightarrow> 'a \<Rightarrow> real) \<Rightarrow> 'a list \<Rightarrow> 'a list" where
  "js_sort cmp xs = foldr (insert_by cmp) xs []"

text \<open>The comparator of \<open>displayRoute\<close>.\<close>

definition sequence_compare :: "route_leg \<Rightarrow> route_leg \<Rightarrow> real" where
  "sequence_compare a b =
     (case (sequence_number a, sequence_number b) of
        (Fin x, Fin y) \<Rightarrow> x - y
      | _ \<Rightarrow> 0)"

text \<open>\<open>routeId ? favoriteRouteIds.has(routeId) : false\<close>.\<close>

definition route_is_favorite :: "int option \<Rightarrow> page \<Rightarrow> bool" where
  "route_is_favorite routeId s =
     (case routeId of
        None \<Rightarrow> False
      | Some i \<Rightarrow> if i = 0 then False else i \<in> favoriteRouteIds s)"

text \<open>
  \<open>displayRouteInfo\<close>: the result panel is filled and shown; the cards are rendered
  from \<open>route.objects\<close> as received.
\<close>

definition displayRouteInfo :: "route \<Rightarrow> page \<Rightarrow> page" where
  "displayRouteInfo route s =
     s\<lparr>results := Some \<lparr>r_objects_count = objects_count route,
                          r_total_distance = formatDistance (total_distance route),
                          r_created_at = created_at route,
                          r_is_favorite = route_is_favorite (route_id route) s,
                          r_cards = map_indexed renderObjectCard (objects route)\<rparr>,
       results_hidden := False\<rparr>"

text \<open>
  \<open>displayRoute\<close>. After \<open>clearRoute\<close> has run, reading \<open>route.objects\<close> throws for a
  null value, and the spread throws for any other value that is not a route object, having
  no iterable \<open>objects\<close>.
\<close>

definition displayRoute :: "jdata \<Rightarrow> page \<Rightarrow> js_error option \<times> page" where
  "displayRoute data s =
     (let s1 = clearRoute s
      in case data of
           JRoute route \<Rightarrow>
             (let sorted_objects = js_sort sequence_compare (objects route);
                  routeCoords = start_location route #
                                map (\<lambda>item. (latitude (object item), longitude (object item)))
                                    sorted_objects;
                  s2 = s1\<lparr>markers := markers s1 @ map_indexed route_marker sorted_objects\<rparr>;
                  s3 = drawStraightRoute routeCoords s2
              in (None, displayRouteInfo route s3))
         | JNull \<Rightarrow> (Some (Error msg_null_body), s1)
         | _ \<Rightarrow> (Some (Error msg_not_iterable), s1))"

text \<open>\<open>renderRouteHistory\<close>.\<close>

definition history_entry :: "route_summary \<Rightarrow> history_item" where
  "history_entry r =
     \<lparr>h_route_id = sum_id r,
      h_address = (case or_str (sum_start_address r) (Some msg_no_address) of
                     Some a \<Rightarrow> a | None \<Rightarrow> msg_no_address),
      h_objects_count = sum_objects_count r,
      h_distance = formatDistance (sum_total_distance r),
      h_created_at = sum_created_at r\<rparr>"

definition renderRouteHistory :: "route_summary list \<Rightarrow> page \<Rightarrow> page" where
  "renderRouteHistory routes s =
     (case routes_list s of
        None \<Rightarrow> s
      | Some view \<Rightarrow>
          (let s1 = s\<lparr>favoriteRouteIds :=
                        set (map sum_id (filter (\<lambda>r. truthy_flag (is_favorite r)) routes))\<rparr>;
               favorites = filter (\<lambda>r. truthy_flag (is_favorite r)) routes
           in if favorites = [] then s1\<lparr>routes_list := Some NoFavorites\<rparr>
              else s1\<lparr>routes_list := Some (HistoryItems (map history_entry favorites))\<rparr>))"

text \<open>\<open>data?.routes || []\<close>.\<close>

fun routes_of :: "jdata \<Rightarrow> route_summary list" where
  "routes_of (JRoutes (Some rs)) = rs"
| "routes_of other = []"

text \<open>\<open>loadRouteHistory\<close>.\<close>

definition loadRouteHistory :: "page \<Rightarrow> page" where
  "loadRouteHistory s =
     (case routes_list s of
        None \<Rightarrow> s
      | Some view \<Rightarrow>
          (case getRoutes s of
             (Inr data, s1) \<Rightarrow> renderRouteHistory (routes_of data) s1
           | (Inl e, s1) \<Rightarrow>
               s1\<lparr>console_errors := console_errors s1 @ [e],
                  routes_list := Some HistoryFailed\<rparr>))"

text \<open>
  \<open>buildRoute\<close>. The form fields are read through \<open>parseFloat\<close> and \<open>parseInt\<close>;
  \<open>input_lat\<close>, \<open>input_lon\<close> and \<open>input_count\<close> are the numbers these return. The
  function is split in three: the choice of the start coordinate (the fallback to
  \<open>currentStart\<close>), the part that runs once the validation has passed, and the whole.
\<close>

definition chosen_start :: "page \<Rightarrow> jsnum \<times> jsnum" where
  "chosen_start s =
     (case currentStart s of
        Some start \<Rightarrow>
          if \<not> isFinite (input_lat s) \<or> \<not> isFinite (input_lon s) then start
          else (input_lat s, input_lon s)
      | None \<Rightarrow> (input_lat s, input_lon s))"

definition buildRoute_validated :: "jsnum \<Rightarrow> jsnum \<Rightarrow> page \<Rightarrow> page" where
  "buildRoute_validated lat lon s =
     (let s1 = clearRoute ((showLoading True s)\<lparr>currentRoute := JNull\<rparr>);
          s5 = (case api_buildRoute (lat, lon) (input_count s) (input_address s) s1 of
                  (Inl e, s2) \<Rightarrow> showMessage (message e) ''error'' s2
                | (Inr route, s2) \<Rightarrow>
                    (case displayRoute route (s2\<lparr>currentRoute := route\<rparr>) of
                       (Some e, s3) \<Rightarrow> showMessage (message e) ''error'' s3
                     | (None, s3) \<Rightarrow>
                         showMessage msg_route_built ''success'' (loadRouteHistory s3)))
      in showLoading False s5)"

definition buildRoute :: "page \<Rightarrow> page" where
  "buildRoute s =
     (let lat = fst (chosen_start s);
          lon = snd (chosen_start s);
          objectsCount = input_count s
      in if \<not> isFinite lat \<or> \<not> isFinite lon then showMessage msg_choose_start ''error'' s
         else if js_lt objectsCount (Fin 2) \<or> js_gt objectsCount (Fin 20)
         then showMessage msg_count_range ''error'' s
         else buildRoute_validated lat lon s)"

text \<open>\<open>data?.story || fallback\<close>.\<close>

fun story_of :: "jdata \<Rightarrow> string" where
  "story_of (JStory (Some t)) = (if t \<noteq> [] then t else msg_story_failed)"
| "story_of other = msg_story_failed"

definition set_modal_body :: "string \<Rightarrow> page \<Rightarrow> page" where
  "set_modal_body text s = s\<lparr>modal := map_option (\<lambda>m. m\<lparr>modal_body := text\<rparr>) (modal s)\<rparr>"

text \<open>
  \<open>openAiStoryModal\<close>. The argument is \<open>None\<close> for a null object; an id of 0 is
  falsy. \<open>modal s\<close> is \<open>None\<close> when one of the five modal elements is missing.
\<close>

definition openAiStoryModal :: "heritage_object option \<Rightarrow> page \<Rightarrow> page" where
  "openAiStoryModal arg s =
     (case arg of
        None \<Rightarrow> s
      | Some obj \<Rightarrow>
          if obj_id obj = 0 then s
          else
            (case modal s of
               None \<Rightarrow> s
             | Some m \<Rightarrow>
                 (let s1 = s\<lparr>modal := Some \<lparr>modal_title = (if name obj \<noteq> [] then name obj
                                                               else msg_object),
                                               modal_body = msg_preparing_story,
                                               modal_hidden = False\<rparr>\<rparr>
                  in case storyCache s1 (obj_id obj) of
                       Some text \<Rightarrow> set_modal_body text s1
                     | None \<Rightarrow>
                         (case getObjectStory (obj_id obj) s1 of
                            (Inr data, s2) \<Rightarrow>
                              (let story = story_of data
                               in set_modal_body story
                                    (s2\<lparr>storyCache := (storyCache s2)(obj_id obj \<mapsto> story)\<rparr>))
                          | (Inl e, s2) \<Rightarrow>
                              set_modal_body (if message e \<noteq> [] then message e
                                              else msg_story_failed) s2))))"

text \<open>
  The page as the scripts leave it when they are loaded: nothing stored, nothing drawn,
  an empty form, the document's elements all present.
\<close>

definition initial_page :: page where
  "initial_page =
     \<lparr>token = None, user = None, localStorage = (\<lambda>k. None), location_href = ''index.html'',
      console_errors = [], requests = [], responses = [],
      markers = [], routeLine = None, currentRoute = JNull, currentStart = None,
      favoriteRouteIds = {}, storyCache = (\<lambda>k. None),
      input_lat = NaN, input_lon = NaN, input_count = NaN, input_address = [],
      message_box = None, loading = False, results = None, results_hidden = True,
      routes_list = Some HistoryUntouched,
      modal = Some \<lparr>modal_title = [], modal_body = [], modal_hidden = True\<rparr>\<rparr>"

text \<open>The text the story modal shows, if the modal exists.\<close>

definition shown_story :: "page \<Rightarrow> string option" where
  "shown_story s = map_option modal_body (modal s)"

text \<open>A heritage object used in the examples.\<close>

definition sample_object :: heritage_object where
  "sample_object = \<lparr>obj_id = 7, name = ''Tower'', address = ''Red Square'',
     district = Some ''Tverskoy'', object_type = None, description = None,
     latitude = Fin 55, longitude = Fin 37\<rparr>"

text \<open>The routes the history panel shows.\<close>

definition shown_history :: "page \<Rightarrow> history_item list" where
  "shown_history s =
     (case routes_list s of
        Some (HistoryItems items) \<Rightarrow> items
      | _ \<Rightarrow> [])"

text \<open>
  The order of two legs by their sequence numbers, when both are finite numbers.
\<close>

definition seq_le :: "route_leg \<Rightarrow> route_leg \<Rightarrow> bool" where
  "seq_le a b =
     (case (sequence_number a, sequence_number b) of
        (Fin x, Fin y) \<Rightarrow> x \<le> y
      | _ \<Rightarrow> False)"

text \<open>Values used in the examples.\<close>

definition sample_object_b :: heritage_object where
  "sample_object_b = \<lparr>obj_id = 8, name = ''Bridge'', address = ''Embankment'',
     district = None, object_type = Some ''bridge'', description = None,
     latitude = Fin 56, longitude = Fin 38\<rparr>"

definition unsorted_route :: route where
  "unsorted_route =
     \<lparr>route_id = Some 1,
      objects = [\<lparr>sequence_number = Fin 2, object = sample_object_b,
                   distance_from_previous = Some (Fin 300)\<rparr>,
                 \<lparr>sequence_number = Fin 1, object = sample_object,
                   distance_from_previous = Some (Fin 50)\<rparr>],
      start_location = (Fin 55, Fin 37),
      total_distance = Fin 350, objects_count = 2, created_at = ''2025-01-01''\<rparr>"

definition sample_summary :: "int \<Rightarrow> jsflag \<Rightarrow> route_summary" where
  "sample_summary i f = \<lparr>sum_id = i, is_favorite = f, sum_start_address = None,
     sum_objects_count = 3, sum_total_distance = Fin 1500, sum_created_at = ''2025-01-01''\<rparr>"

definition out_of_range_page :: page where
  "out_of_range_page = initial_page\<lparr>input_lat := Fin 100, input_lon := Fin 37,
        input_count := Fin 5, currentRoute := JRoute unsorted_route\<rparr>"

section \<open>The database schema\<close>

text \<open>
  The tables of the schema that routes involve, with the constraints their
  \<open>CREATE TABLE\<close> statements declare. A \<open>POINT\<close> has the longitude as X and the latitude
  as Y, in degrees. For \<open>users\<close> and \<open>heritage_objects\<close> only the primary keys matter
  below (they are the targets of foreign keys), so these tables are the lists of their
  ids. The primary keys of \<open>routes\<close> and \<open>route_objects\<close> are \<open>AUTO_INCREMENT\<close> counters.
\<close>

datatype sql_error = DuplicateEntry | ForeignKeyFails | OutOfRange

record point =
  px :: real
  py :: real

record route_row =
  rt_id :: int
  rt_user_id :: int
  rt_start_location :: point
  rt_start_address :: "string option"
  rt_total_distance :: "real option"
  rt_objects_count :: int
  rt_is_favorite :: "bool option"
  rt_created_at :: nat

record route_object_row =
  ro_id :: int
  ro_route_id :: int
  ro_object_id :: int
  ro_sequence_number :: int
  ro_distance_from_previous :: "real option"

record database =
  users :: "int list"
  heritage_objects :: "int list"
  routes :: "route_row list"
  route_objects :: "route_object_row list"
  next_route_id :: int
  next_route_object_id :: int

text \<open>The database after the schema script has run: every table dropped and created.\<close>

definition empty_database :: database where
  "empty_database = \<lparr>users = [], heritage_objects = [], routes = [], route_objects = [],
     next_route_id = 1, next_route_object_id = 1\<rparr>"

text \<open>
  \<open>UNIQUE KEY unique_route_object (route_id, object_id)\<close>: the check made before a row
  with this pair is stored among \<open>rows\<close>.
\<close>

definition unique_route_object_free :: "int \<Rightarrow> int \<Rightarrow> route_object_row list \<Rightarrow> bool" where
  "unique_route_object_free rid oid rows =
     (\<not> list_ex (\<lambda>r. ro_route_id r = rid \<and> ro_object_id r = oid) rows)"

text \<open>
  \<open>INSERT INTO route_objects\<close>: both foreign keys must point at existing rows and the
  unique key must be free.
\<close>

definition insert_route_object ::
  "int \<Rightarrow> int \<Rightarrow> int \<Rightarrow> real option \<Rightarrow> database \<Rightarrow> sql_error + database" where
  "insert_route_object rid oid sequence_no distance db =
     (if rid \<notin> set (map rt_id (routes db)) then Inl ForeignKeyFails
      else if oid \<notin> set (heritage_objects db) then Inl ForeignKeyFails
      else if \<not> unique_route_object_free rid oid (route_objects db) then Inl DuplicateEntry
      else Inr (db\<lparr>route_objects := route_objects db @
                      [\<lparr>ro_id = next_route_object_id db, ro_route_id = rid,
                        ro_object_id = oid, ro_sequence_number = sequence_no,
                        ro_distance_from_previous = distance\<rparr>],
                    next_route_object_id := next_route_object_id db + 1\<rparr>))"

text \<open>
  \<open>UPDATE route_objects SET route_id = .., object_id = .. WHERE id = ..\<close>. Were several
  rows to match, they would all receive the same pair, which the unique key rejects.
\<close>

definition update_route_object :: "int \<Rightarrow> int \<Rightarrow> int \<Rightarrow> database \<Rightarrow> sql_error + database" where
  "update_route_object row_id rid oid db =
     (if \<not> list_ex (\<lambda>r. ro_id r = row_id) (route_objects db) then Inr db
      else if rid \<notin> set (map rt_id (routes db)) then Inl ForeignKeyFails
      else if oid \<notin> set (heritage_objects db) then Inl ForeignKeyFails
      else if \<not> unique_route_object_free rid oid
                  (filter (\<lambda>r. ro_id r \<noteq> row_id) (route_objects db))
      then Inl DuplicateEntry
      else if 1 < length (filter (\<lambda>r. ro_id r = row_id) (route_objects db))
      then Inl DuplicateEntry
      else Inr (db\<lparr>route_objects :=
                    map (\<lambda>r. if ro_id r = row_id
                              then r\<lparr>ro_route_id := rid, ro_object_id := oid\<rparr> else r)
                        (route_objects db)\<rparr>))"

text \<open>Deletions; \<open>ON DELETE CASCADE\<close> removes the rows that refer to a deleted row.\<close>

definition delete_route_object :: "int \<Rightarrow> database \<Rightarrow> database" where
  "delete_route_object row_id db =
     db\<lparr>route_objects := filter (\<lambda>r. ro_id r \<noteq> row_id) (route_objects db)\<rparr>"

definition delete_route :: "int \<Rightarrow> database \<Rightarrow> database" where
  "delete_route rid db =
     db\<lparr>routes := filter (\<lambda>r. rt_id r \<noteq> rid) (routes db),
        route_objects := filter (\<lambda>r. ro_route_id r \<noteq> rid) (route_objects db)\<rparr>"

definition delete_heritage_object :: "int \<Rightarrow> database \<Rightarrow> database" where
  "delete_heritage_object oid db =
     db\<lparr>heritage_objects := filter (\<lambda>i. i \<noteq> oid) (heritage_objects db),
        route_objects := filter (\<lambda>r. ro_object_id r \<noteq> oid) (route_objects db)\<rparr>"

definition delete_user :: "int \<Rightarrow> database \<Rightarrow> database" where
  "delete_user uid db =
     (let gone = map rt_id (filter (\<lambda>r. rt_user_id r = uid) (routes db))
      in db\<lparr>users := filter (\<lambda>i. i \<noteq> uid) (users db),
            routes := filter (\<lambda>r. rt_user_id r \<noteq> uid) (routes db),
            route_objects := filter (\<lambda>r. ro_route_id r \<notin> set gone) (route_objects db)\<rparr>)"

text \<open>Insertions into the other tables; \<open>is_favorite\<close> takes its default, false.\<close>

definition insert_user :: "int \<Rightarrow> database \<Rightarrow> sql_error + database" where
  "insert_user uid db =
     (if uid \<in> set (users db) then Inl DuplicateEntry
      else Inr (db\<lparr>users := users db @ [uid]\<rparr>))"

definition insert_heritage_object :: "int \<Rightarrow> database \<Rightarrow> sql_error + database" where
  "insert_heritage_object oid db =
     (if oid \<in> set (heritage_objects db) then Inl DuplicateEntry
      else Inr (db\<lparr>heritage_objects := heritage_objects db @ [oid]\<rparr>))"

definition insert_route ::
  "int \<Rightarrow> point \<Rightarrow> string option \<Rightarrow> real option \<Rightarrow> int \<Rightarrow> nat \<Rightarrow> database
     \<Rightarrow> sql_error + database" where
  "insert_route uid start addr total_dist n now db =
     (if uid \<notin> set (users db) then Inl ForeignKeyFails
      else Inr (db\<lparr>routes := routes db @
                      [\<lparr>rt_id = next_route_id db, rt_user_id = uid, rt_start_location = start,
                        rt_start_address = addr, rt_total_distance = total_dist,
                        rt_objects_count = n, rt_is_favorite = Some False,
                        rt_created_at = now\<rparr>],
                    next_route_id := next_route_id db + 1\<rparr>))"

text \<open>
  The statements a client can issue, and a client session: a statement that fails
  leaves the database as it was.
\<close>

datatype statement =
    InsertUser int
  | InsertHeritageObject int
  | InsertRoute int point "string option" "real option" int nat
  | InsertRouteObject int int int "real option"
  | UpdateRouteObject int int int
  | DeleteRouteObject int
  | DeleteRoute int
  | DeleteHeritageObject int
  | DeleteUser int

fun execute :: "statement \<Rightarrow> database \<Rightarrow> sql_error + database" where
  "execute (InsertUser uid) db = insert_user uid db"
| "execute (InsertHeritageObject oid) db = insert_heritage_object oid db"
| "execute (InsertRoute uid start addr td n now) db = insert_route uid start addr td n now db"
| "execute (InsertRouteObject rid oid sq d) db = insert_route_object rid oid sq d db"
| "execute (UpdateRouteObject row_id rid oid) db = update_route_object row_id rid oid db"
| "execute (DeleteRouteObject row_id) db = Inr (delete_route_object row_id db)"
| "execute (DeleteRoute rid) db = Inr (delete_route rid db)"
| "execute (DeleteHeritageObject oid) db = Inr (delete_heritage_object oid db)"
| "execute (DeleteUser uid) db = Inr (delete_user uid db)"

fun run :: "statement list \<Rightarrow> database \<Rightarrow> database" where
  "run [] db = db"
| "run (st # sts) db =
     (case execute st db of
        Inl e \<Rightarrow> run sts db
      | Inr db' \<Rightarrow> run sts db')"

text \<open>
  The invariant: the pairs (route id, object id) of the stored legs are pairwise
  different. \<open>route_legs\<close> are the legs of one route.
\<close>

definition route_object_keys :: "database \<Rightarrow> (int \<times> int) list" where
  "route_object_keys db = map (\<lambda>r. (ro_route_id r, ro_object_id r)) (route_objects db)"

definition unique_route_object :: "database \<Rightarrow> bool" where
  "unique_route_object db = distinct (route_object_keys db)"

definition route_legs :: "int \<Rightarrow> database \<Rightarrow> route_object_row list" where
  "route_legs rid db = filter (\<lambda>r. ro_route_id r = rid) (route_objects db)"

subsection \<open>The distance function\<close>

text \<open>
  \<open>ST_Distance_Sphere\<close> accepts longitudes in [-180, 180] and latitudes in [-90, 90].
\<close>

definition valid_point :: "point \<Rightarrow> bool" where
  "valid_point p = (- 180 \<le> px p \<and> px p \<le> 180 \<and> - 90 \<le> py p \<and> py p \<le> 90)"

text \<open>
  Modelled from the spec: the body of \<open>ST_Distance_Sphere\<close>, a function of the database
  server that the schema only calls. Section 4.1 of the specification gives it as the
  great-circle distance on a sphere of radius 6,371,000 m; it is written here with the
  haversine formula, over the reals.
\<close>

definition earth_radius :: real where
  "earth_radius = 6371000"

definition radians :: "real \<Rightarrow> real" where
  "radians d = d * pi / 180"

definition haversine :: "point \<Rightarrow> point \<Rightarrow> real" where
  "haversine p q =
     (sin ((radians (py q) - radians (py p)) / 2))\<^sup>2
     + cos (radians (py p)) * cos (radians (py q))
       * (sin ((radians (px q) - radians (px p)) / 2))\<^sup>2"

definition ST_Distance_Sphere :: "point \<Rightarrow> point \<Rightarrow> sql_error + real" where
  "ST_Distance_Sphere p q =
     (if valid_point p \<and> valid_point q
      then Inr (2 * earth_radius * arcsin (sqrt (haversine p q)))
      else Inl OutOfRange)"

text \<open>
  A value returned as \<open>DECIMAL(10, 2)\<close>: rounded to two decimals, at most ten digits.
\<close>

definition decimal_10_2 :: "real \<Rightarrow> sql_error + real" where
  "decimal_10_2 x =
     (if \<bar>round (x * 100)\<bar> < 10 ^ 10 then Inr (of_int (round (x * 100)) / 100)
      else Inl OutOfRange)"

text \<open>The stored function \<open>calculate_distance\<close> of the schema.\<close>

definition calculate_distance :: "point \<Rightarrow> point \<Rightarrow> sql_error + real" where
  "calculate_distance point1 point2 =
     (case ST_Distance_Sphere point1 point2 of
        Inl e \<Rightarrow> Inl e
      | Inr d \<Rightarrow> decimal_10_2 d)"

subsection \<open>The route store\<close>

datatype store_error = NotFound

definition owned_by :: "int \<Rightarrow> int \<Rightarrow> route_row \<Rightarrow> bool" where
  "owned_by routeId userId r = (rt_id r = routeId \<and> rt_user_id r = userId)"

text \<open>
  Modelled from the spec: \<open>get\<close> and \<open>setFavorite\<close> of the route store (section 4.4 of
  the specification), the server side of \<open>PATCH /routes/{id}/favorite\<close>, which is not
  among the sources; the client only sends the request (\<open>setRouteFavorite\<close> above).
  \<open>get\<close> fails with NotFound if the route does not exist or does not belong to the user;
  \<open>setFavorite\<close> makes the same ownership check, sets the flag of the route in the
  \<open>routes\<close> table and returns the updated route.
\<close>

definition get_route :: "int \<Rightarrow> int \<Rightarrow> database \<Rightarrow> store_error + route_row" where
  "get_route routeId userId db =
     (case find (owned_by routeId userId) (routes db) of
        None \<Rightarrow> Inl NotFound
      | Some r \<Rightarrow> Inr r)"

definition setFavorite ::
  "int \<Rightarrow> int \<Rightarrow> bool \<Rightarrow> database \<Rightarrow> store_error + database \<times> route_row" where
  "setFavorite routeId userId v db =
     (case get_route routeId userId db of
        Inl e \<Rightarrow> Inl e
      | Inr r \<Rightarrow>
          Inr (db\<lparr>routes := map (\<lambda>x. if owned_by routeId userId x
                                      then x\<lparr>rt_is_favorite := Some v\<rparr> else x) (routes db)\<rparr>,
               r\<lparr>rt_is_favorite := Some v\<rparr>))"

text \<open>A database used in the examples: one user, two objects, one route.\<close>

definition sample_route_row :: route_row where
  "sample_route_row = \<lparr>rt_id = 1, rt_user_id = 10,
     rt_start_location = \<lparr>px = 37.6208, py = 55.7539\<rparr>, rt_start_address = None,
     rt_total_distance = Some 350, rt_objects_count = 2, rt_is_favorite = Some False,
     rt_created_at = 0\<rparr>"

definition sample_database :: database where
  "sample_database = \<lparr>users = [10], heritage_objects = [7, 8], routes = [sample_route_row],
     route_objects = [], next_route_id = 2, next_route_object_id = 1\<rparr>"

text \<open>
  A page whose server answers the first story request without a story and would answer
  a second one with a story.
\<close>

definition storyless_page :: page where
  "storyless_page = initial_page\<lparr>responses :=
     [Response 200 (Some (JStory None)) [], Response 200 (Some (JStory (Some ''A tale''))) []]\<rparr>"

section \<open>Properties of the API client\<close>

lemma logout_not_authenticated: "\<not> isAuthenticated (logout s)"
  by (simp add: logout_def isAuthenticated_def)

text \<open>
  C9. A request answered with status 401 logs the client out before it rejects: the
  token and the user are cleared on the client and in \<open>localStorage\<close>, so
  \<open>isAuthenticated\<close> is false afterwards, and the request throws the authorization
  error instead of returning data.
\<close>

theorem request_401_logs_out:
  assumes "responses s = Response 401 body pm # rest"
  shows "fst (request ep s) = Inl (Error msg_auth_required)
       \<and> token (snd (request ep s)) = None
       \<and> user (snd (request ep s)) = None
       \<and> localStorage (snd (request ep s)) ''auth_token'' = None
       \<and> localStorage (snd (request ep s)) ''user'' = None
       \<and> \<not> isAuthenticated (snd (request ep s))"
  using assms
  by (simp add: request_def rethrow_def logout_def isAuthenticated_def Let_def)

theorem request_401_logs_out_witness:
  "responses (initial_page\<lparr>token := Some ''t0'', user := Some ''ann'',
        localStorage := (\<lambda>k. None)(''auth_token'' \<mapsto> ''t0'', ''user'' \<mapsto> ''ann''),
        responses := [Response 401 (Some JOther) []]\<rparr>) = Response 401 (Some JOther) [] # []
   \<and> isAuthenticated (initial_page\<lparr>token := Some ''t0'', user := Some ''ann'',
        localStorage := (\<lambda>k. None)(''auth_token'' \<mapsto> ''t0'', ''user'' \<mapsto> ''ann''),
        responses := [Response 401 (Some JOther) []]\<rparr>)
   \<and> fst (request GetRoutes (initial_page\<lparr>token := Some ''t0'', user := Some ''ann'',
        localStorage := (\<lambda>k. None)(''auth_token'' \<mapsto> ''t0'', ''user'' \<mapsto> ''ann''),
        responses := [Response 401 (Some JOther) []]\<rparr>)) = Inl (Error msg_auth_required)
   \<and> \<not> isAuthenticated (snd (request GetRoutes (initial_page\<lparr>token := Some ''t0'', user := Some ''ann'',
        localStorage := (\<lambda>k. None)(''auth_token'' \<mapsto> ''t0'', ''user'' \<mapsto> ''ann''),
        responses := [Response 401 (Some JOther) []]\<rparr>)))"
  using request_401_logs_out [of "initial_page\<lparr>token := Some ''t0'', user := Some ''ann'',
        localStorage := (\<lambda>k. None)(''auth_token'' \<mapsto> ''t0'', ''user'' \<mapsto> ''ann''),
        responses := [Response 401 (Some JOther) []]\<rparr>" "Some JOther" "[]" "[]" GetRoutes]
  by (simp add: initial_page_def isAuthenticated_def)

section \<open>Properties of the story modal\<close>

lemma request_modal_fst: "fst (request ep (s\<lparr>modal := m\<rparr>)) = fst (request ep s)"
  by (simp add: request_def rethrow_def logout_def getHeaders_def Let_def
      split: list.splits fetch_result.splits option.splits)

lemma request_modal_snd: "snd (request ep (s\<lparr>modal := m\<rparr>)) = (snd (request ep s))\<lparr>modal := m\<rparr>"
  by (simp add: request_def rethrow_def logout_def getHeaders_def Let_def
      split: list.splits fetch_result.splits option.splits)

lemma request_sends_one:
  "requests (snd (request ep s)) = requests s @ [\<lparr>target = ep, authorization = getHeaders s\<rparr>]"
  by (simp add: request_def rethrow_def logout_def getHeaders_def Let_def
      split: list.splits fetch_result.splits option.splits)

lemma request_keeps_cache: "storyCache (snd (request ep s)) = storyCache s"
  by (simp add: request_def rethrow_def logout_def getHeaders_def Let_def
      split: list.splits fetch_result.splits option.splits)

lemma request_keeps_modal: "modal (snd (request ep s)) = modal s"
  by (simp add: request_def rethrow_def logout_def getHeaders_def Let_def
      split: list.splits fetch_result.splits option.splits)

lemma story_hit:
  assumes "obj_id obj \<noteq> 0" "modal s \<noteq> None" "storyCache s (obj_id obj) = Some text"
  shows "shown_story (openAiStoryModal (Some obj) s) = Some text
       \<and> requests (openAiStoryModal (Some obj) s) = requests s
       \<and> responses (openAiStoryModal (Some obj) s) = responses s
       \<and> storyCache (openAiStoryModal (Some obj) s) = storyCache s"
  using assms by (auto simp: openAiStoryModal_def set_modal_body_def shown_story_def Let_def)


lemma open_miss:
  assumes "obj_id obj \<noteq> 0" "modal s \<noteq> None" "storyCache s (obj_id obj) = None"
  shows "openAiStoryModal (Some obj) s =
     (case fst (getObjectStory (obj_id obj) s) of
        Inr data \<Rightarrow>
          (snd (getObjectStory (obj_id obj) s))
            \<lparr>storyCache := (storyCache s)(obj_id obj \<mapsto> story_of data),
              modal := Some \<lparr>modal_title = (if name obj \<noteq> [] then name obj else msg_object),
                          modal_body = story_of data, modal_hidden = False\<rparr>\<rparr>
      | Inl e \<Rightarrow>
          (snd (getObjectStory (obj_id obj) s))
            \<lparr>modal := Some \<lparr>modal_title = (if name obj \<noteq> [] then name obj else msg_object),
                          modal_body = (if message e \<noteq> [] then message e else msg_story_failed),
                          modal_hidden = False\<rparr>\<rparr>)"
proof -
  let ?m = "Some \<lparr>modal_title = (if name obj \<noteq> [] then name obj else msg_object),
                          modal_body = msg_preparing_story, modal_hidden = False\<rparr>"
  obtain r s2 where rs: "getObjectStory (obj_id obj) (s\<lparr>modal := ?m\<rparr>) = (r, s2)"
    by (cases "getObjectStory (obj_id obj) (s\<lparr>modal := ?m\<rparr>)")
  have r: "r = fst (getObjectStory (obj_id obj) s)"
    using rs request_modal_fst [where ep = "ObjectStory (obj_id obj)" and s = s and m = ?m]
    by (simp add: getObjectStory_def)
  have s2: "s2 = (snd (getObjectStory (obj_id obj) s))\<lparr>modal := ?m\<rparr>"
    using rs request_modal_snd [where ep = "ObjectStory (obj_id obj)" and s = s and m = ?m]
    by (simp add: getObjectStory_def)
  have c: "storyCache (snd (getObjectStory (obj_id obj) s)) = storyCache s"
    by (simp add: getObjectStory_def request_keeps_cache)
  from assms obtain m where m: "modal s = Some m" by auto
  show ?thesis
    using assms(1,3) m rs
    by (cases r) (simp_all add: openAiStoryModal_def Let_def set_modal_body_def r [symmetric] s2 c)
qed

lemma story_first_call:
  assumes "obj_id obj \<noteq> 0" "modal s \<noteq> None" 
     "storyCache (openAiStoryModal (Some obj) s) (obj_id obj) = Some text"
  shows "shown_story (openAiStoryModal (Some obj) s) = Some text
       \<and> length (requests (openAiStoryModal (Some obj) s)) \<le> Suc (length (requests s))
       \<and> modal (openAiStoryModal (Some obj) s) \<noteq> None"
proof (cases "storyCache s (obj_id obj)")
  case None
  show ?thesis
    using assms(3) None
    by (cases "fst (getObjectStory (obj_id obj) s)")
       (simp_all add: open_miss [OF assms(1,2) None] shown_story_def getObjectStory_def
          request_keeps_cache request_sends_one)
next
  case (Some t)
  have "storyCache (openAiStoryModal (Some obj) s) = storyCache s"
    using story_hit [OF assms(1,2) Some] by simp
  with Some assms(3) have "t = text" by simp
  with story_hit [OF assms(1,2) Some] assms(2) show ?thesis 
    by (auto simp: shown_story_def)
qed

text \<open>
  C1. Once a story for an object id is in the story cache (the first
  \<open>openAiStoryModal\<close> call found it there or fetched and stored it), that call shows the
  cached text, and a following call for the same id shows the identical text, sends no
  request (\<open>api.getObjectStory\<close> is not invoked again), consumes no answer and leaves
  the cache as it is; the first call sends at most one request.
\<close>

theorem story_cached_served_without_call:
  assumes "obj_id obj \<noteq> 0" and "modal s \<noteq> None"
    and "s1 = openAiStoryModal (Some obj) s"
    and "storyCache s1 (obj_id obj) = Some text"
    and "s2 = openAiStoryModal (Some obj) s1"
  shows "shown_story s1 = Some text
       \<and> shown_story s2 = Some text
       \<and> requests s2 = requests s1
       \<and> responses s2 = responses s1
       \<and> storyCache s2 = storyCache s1
       \<and> length (requests s1) \<le> Suc (length (requests s))"
proof -
  have first: "shown_story s1 = Some text
       \<and> length (requests s1) \<le> Suc (length (requests s)) \<and> modal s1 \<noteq> None"
    using story_first_call [OF assms(1,2)] assms(3,4) by simp
  then have m1: "modal s1 \<noteq> None" by simp
  have second: "shown_story s2 = Some text \<and> requests s2 = requests s1
      \<and> responses s2 = responses s1 \<and> storyCache s2 = storyCache s1"
    using story_hit [OF assms(1) m1 assms(4)] assms(5) by simp
  from first second show ?thesis by simp
qed

theorem story_cached_served_without_call_witness:
  "obj_id sample_object \<noteq> 0
   \<and> modal (initial_page\<lparr>responses := [Response 200 (Some (JStory (Some ''A tale''))) []]\<rparr>) \<noteq> None
   \<and> storyCache (openAiStoryModal (Some sample_object)
        (initial_page\<lparr>responses := [Response 200 (Some (JStory (Some ''A tale''))) []]\<rparr>)) 
        (obj_id sample_object) = Some ''A tale''
   \<and> shown_story (openAiStoryModal (Some sample_object) (openAiStoryModal (Some sample_object)
        (initial_page\<lparr>responses := [Response 200 (Some (JStory (Some ''A tale''))) []]\<rparr>)))
       = Some ''A tale''
   \<and> requests (openAiStoryModal (Some sample_object) (openAiStoryModal (Some sample_object)
        (initial_page\<lparr>responses := [Response 200 (Some (JStory (Some ''A tale''))) []]\<rparr>)))
       = [\<lparr>target = ObjectStory 7, authorization = None\<rparr>]"
proof -
  let ?s = "initial_page\<lparr>responses := [Response 200 (Some (JStory (Some ''A tale''))) []]\<rparr>"
  let ?s1 = "openAiStoryModal (Some sample_object) ?s"
  have a: "obj_id sample_object \<noteq> 0" by (simp add: sample_object_def)
  have b: "modal ?s \<noteq> None" by (simp add: initial_page_def)
  have s1: "?s1 = ?s\<lparr>requests := [\<lparr>target = ObjectStory 7, authorization = None\<rparr>],
                     responses := [],
                     storyCache := (\<lambda>k. None)(7 \<mapsto> ''A tale''),
                     modal := Some \<lparr>modal_title = ''Tower'', modal_body = ''A tale'', modal_hidden = False\<rparr>\<rparr>"
    by (simp add: openAiStoryModal_def sample_object_def initial_page_def getObjectStory_def
        request_def getHeaders_def response_ok_def set_modal_body_def Let_def)
  have c: "storyCache ?s1 (obj_id sample_object) = Some ''A tale''"
    unfolding s1 by (simp add: sample_object_def)
  have r1: "requests ?s1 = [\<lparr>target = ObjectStory 7, authorization = None\<rparr>]"
    unfolding s1 by simp
  from story_cached_served_without_call [OF a b refl c refl] a b c r1
  show ?thesis by simp
qed

text \<open>
  The \<open>catch\<close> path: if the call of \<open>api.getObjectStory\<close> throws, the failure is
  shown to the user, the story cache is left unchanged, so it holds nothing for that id,
  and the next call for the same id sends the story request again.
\<close>

theorem story_failure_not_cached:
  assumes "obj_id obj \<noteq> 0" and "modal s \<noteq> None"
    and "storyCache s (obj_id obj) = None"
    and "fst (getObjectStory (obj_id obj) s) = Inl e"
    and "s1 = openAiStoryModal (Some obj) s"
  shows "shown_story s1 = Some (if message e \<noteq> [] then message e else msg_story_failed)
       \<and> storyCache s1 = storyCache s
       \<and> storyCache s1 (obj_id obj) = None
       \<and> requests (openAiStoryModal (Some obj) s1)
           = requests s1 @ [\<lparr>target = ObjectStory (obj_id obj), authorization = getHeaders s1\<rparr>]"
proof -
  let ?m = "Some \<lparr>modal_title = (if name obj \<noteq> [] then name obj else msg_object),
                  modal_body = (if message e \<noteq> [] then message e else msg_story_failed),
                  modal_hidden = False\<rparr>"
  have s1: "s1 = (snd (getObjectStory (obj_id obj) s))\<lparr>modal := ?m\<rparr>"
    using open_miss [OF assms(1,2,3)] assms(4,5) by simp
  have cache: "storyCache s1 = storyCache s"
    by (simp add: s1 getObjectStory_def request_keeps_cache)
  have shown: "shown_story s1 = Some (if message e \<noteq> [] then message e else msg_story_failed)"
    by (simp add: s1 shown_story_def)
  have m1: "modal s1 \<noteq> None" by (simp add: s1)
  have none1: "storyCache s1 (obj_id obj) = None" using cache assms(3) by simp
  have retry: "requests (openAiStoryModal (Some obj) s1)
           = requests s1 @ [\<lparr>target = ObjectStory (obj_id obj), authorization = getHeaders s1\<rparr>]"
    by (cases "fst (getObjectStory (obj_id obj) s1)")
       (simp_all add: open_miss [OF assms(1) m1 none1] getObjectStory_def request_sends_one)
  from shown cache none1 retry show ?thesis by simp
qed

theorem story_failure_not_cached_witness:
  "obj_id sample_object \<noteq> 0
   \<and> modal (initial_page\<lparr>responses := [Response 503 (Some (JError (Some ''generator down'') None)) [],
          Response 200 (Some (JStory (Some ''A tale''))) []]\<rparr>) \<noteq> None
   \<and> fst (getObjectStory (obj_id sample_object) (initial_page\<lparr>responses := [Response 503 (Some (JError (Some ''generator down'') None)) [],
          Response 200 (Some (JStory (Some ''A tale''))) []]\<rparr>)) = Inl (Error ''generator down'')
   \<and> shown_story (openAiStoryModal (Some sample_object) (initial_page\<lparr>responses := [Response 503 (Some (JError (Some ''generator down'') None)) [],
          Response 200 (Some (JStory (Some ''A tale''))) []]\<rparr>)) = Some ''generator down''
   \<and> storyCache (openAiStoryModal (Some sample_object) (initial_page\<lparr>responses := [Response 503 (Some (JError (Some ''generator down'') None)) [],
          Response 200 (Some (JStory (Some ''A tale''))) []]\<rparr>)) 7 = None
   \<and> length (requests (openAiStoryModal (Some sample_object) (openAiStoryModal (Some sample_object) (initial_page\<lparr>responses := [Response 503 (Some (JError (Some ''generator down'') None)) [],
          Response 200 (Some (JStory (Some ''A tale''))) []]\<rparr>)))) = 2"
proof -
  let ?s = "initial_page\<lparr>responses := [Response 503 (Some (JError (Some ''generator down'') None)) [],
          Response 200 (Some (JStory (Some ''A tale''))) []]\<rparr>"
  have a: "obj_id sample_object \<noteq> 0" by (simp add: sample_object_def)
  have b: "modal ?s \<noteq> None" by (simp add: initial_page_def)
  have c: "storyCache ?s (obj_id sample_object) = None" by (simp add: initial_page_def)
  have d: "fst (getObjectStory (obj_id sample_object) ?s) = Inl (Error ''generator down'')"
    by (simp add: getObjectStory_def request_def initial_page_def rethrow_def response_ok_def
        or_str_def Let_def)
  have rq: "requests ?s = []" by (simp add: initial_page_def)
  have r: "length (requests (openAiStoryModal (Some sample_object) ?s)) = 1"
    unfolding open_miss [OF a b c] d by (simp add: getObjectStory_def request_sends_one rq)
  have t: "shown_story (openAiStoryModal (Some sample_object) ?s) = Some ''generator down''
      \<and> storyCache (openAiStoryModal (Some sample_object) ?s) (obj_id sample_object) = None
      \<and> length (requests (openAiStoryModal (Some sample_object)
            (openAiStoryModal (Some sample_object) ?s))) = 2"
    using story_failure_not_cached [OF a b c d refl] r c by simp
  have i: "obj_id sample_object = 7" by (simp add: sample_object_def)
  from t a b d show ?thesis unfolding i by simp
qed

text \<open>
  The other path: for a request that is answered without a story, the same failure text
  is taken as the story and stored in the cache.
\<close>

lemma story_fallback_is_cached:
  assumes "obj_id obj \<noteq> 0" and "modal s \<noteq> None"
    and "storyCache s (obj_id obj) = None"
    and "fst (getObjectStory (obj_id obj) s) = Inr (JStory None)"
  shows "storyCache (openAiStoryModal (Some obj) s) (obj_id obj) = Some msg_story_failed"
  using assms(4) by (simp add: open_miss [OF assms(1,2,3)])

text \<open>
  C3. A negative result is cached, against the claim: when the story request is
  answered without a story, \<open>openAiStoryModal\<close> stores the failure text under the object
  id, and the next call for the same id shows that text from the cache and does not
  retry: one request is sent over the two calls, and the answer that carries a story is
  never fetched.
\<close>

theorem story_failure_text_cached:
  "storyCache storyless_page (obj_id sample_object) = None
   \<and> shown_story (openAiStoryModal (Some sample_object) storyless_page) = Some msg_story_failed
   \<and> storyCache (openAiStoryModal (Some sample_object) storyless_page) (obj_id sample_object)
       = Some msg_story_failed
   \<and> shown_story (openAiStoryModal (Some sample_object)
        (openAiStoryModal (Some sample_object) storyless_page)) = Some msg_story_failed
   \<and> requests (openAiStoryModal (Some sample_object)
        (openAiStoryModal (Some sample_object) storyless_page))
       = [\<lparr>target = ObjectStory 7, authorization = None\<rparr>]
   \<and> responses (openAiStoryModal (Some sample_object)
        (openAiStoryModal (Some sample_object) storyless_page))
       = [Response 200 (Some (JStory (Some ''A tale''))) []]"
proof -
  let ?s1 = "openAiStoryModal (Some sample_object) storyless_page"
  have a: "obj_id sample_object \<noteq> 0" by (simp add: sample_object_def)
  have c0: "storyCache storyless_page (obj_id sample_object) = None"
    by (simp add: storyless_page_def initial_page_def)
  have s1: "?s1 = storyless_page\<lparr>requests := [\<lparr>target = ObjectStory 7, authorization = None\<rparr>],
                     responses := [Response 200 (Some (JStory (Some ''A tale''))) []],
                     storyCache := (\<lambda>k. None)(7 \<mapsto> msg_story_failed),
                     modal := Some \<lparr>modal_title = ''Tower'', modal_body = msg_story_failed,
                                   modal_hidden = False\<rparr>\<rparr>"
    by (simp add: openAiStoryModal_def sample_object_def storyless_page_def initial_page_def
        getObjectStory_def request_def getHeaders_def response_ok_def set_modal_body_def Let_def)
  have shown1: "shown_story ?s1 = Some msg_story_failed"
    unfolding s1 by (simp add: shown_story_def)
  have c1: "storyCache ?s1 (obj_id sample_object) = Some msg_story_failed"
    unfolding s1 by (simp add: sample_object_def)
  have m1: "modal ?s1 \<noteq> None" unfolding s1 by simp
  have r1: "requests ?s1 = [\<lparr>target = ObjectStory 7, authorization = None\<rparr>]"
    unfolding s1 by simp
  have p1: "responses ?s1 = [Response 200 (Some (JStory (Some ''A tale''))) []]"
    unfolding s1 by simp
  from story_hit [OF a m1 c1] c0 shown1 c1 r1 p1 show ?thesis by simp
qed

section \<open>Properties of the object cards\<close>

text \<open>
  C10. A rendered leg has the distance line exactly when \<open>distance_from_previous\<close> is
  truthy, in the card of \<open>renderObjectCard\<close> and in the balloon of the marker alike, and
  the line then is the formatted distance; a leg whose distance is exactly 0 is rendered
  without the line, as the same card and the same marker as with a null distance.
\<close>

theorem card_distance_iff_truthy:
  "(c_distance (renderObjectCard item index) \<noteq> None) = truthy_opt_num (distance_from_previous item)
   \<and> (m_distance (route_marker item index) \<noteq> None) = truthy_opt_num (distance_from_previous item)
   \<and> (\<forall>d. distance_from_previous item = Some d \<and> truthy_num d \<longrightarrow>
          c_distance (renderObjectCard item index) = Some (formatDistance d))
   \<and> renderObjectCard (item\<lparr>distance_from_previous := Some (Fin 0)\<rparr>) index
       = renderObjectCard (item\<lparr>distance_from_previous := None\<rparr>) index
   \<and> route_marker (item\<lparr>distance_from_previous := Some (Fin 0)\<rparr>) index
       = route_marker (item\<lparr>distance_from_previous := None\<rparr>) index"
  by (auto simp: renderObjectCard_def route_marker_def distance_line_def Let_def
      split: option.splits)

theorem card_distance_iff_truthy_witness:
  "distance_from_previous \<lparr>sequence_number = Fin 1, object = sample_object,
                           distance_from_previous = Some (Fin 50)\<rparr> = Some (Fin 50)
   \<and> truthy_num (Fin 50)
   \<and> c_distance (renderObjectCard \<lparr>sequence_number = Fin 1, object = sample_object,
                           distance_from_previous = Some (Fin 50)\<rparr> 0) = Some (Metres (Fin 50))
   \<and> c_distance (renderObjectCard \<lparr>sequence_number = Fin 1, object = sample_object,
                           distance_from_previous = Some (Fin 0)\<rparr> 0) = None"
  using card_distance_iff_truthy [of "\<lparr>sequence_number = Fin 1, object = sample_object,
                           distance_from_previous = Some (Fin 50)\<rparr>" 0]
  by (simp add: renderObjectCard_def distance_line_def formatDistance_def)

section \<open>Properties of the route history\<close>

text \<open>
  C8. When the history list element exists, \<open>renderRouteHistory\<close> shows exactly the
  routes of the fetched list whose \<open>is_favorite\<close> is truthy, in their order, and
  \<open>favoriteRouteIds\<close> becomes the set of the ids of these routes.
\<close>

theorem history_shows_exactly_favorites:
  assumes "routes_list s \<noteq> None"
  shows "shown_history (renderRouteHistory fetched s)
           = map history_entry (filter (\<lambda>r. truthy_flag (is_favorite r)) fetched)
       \<and> map h_route_id (shown_history (renderRouteHistory fetched s))
           = map sum_id (filter (\<lambda>r. truthy_flag (is_favorite r)) fetched)
       \<and> favoriteRouteIds (renderRouteHistory fetched s)
           = set (map sum_id (filter (\<lambda>r. truthy_flag (is_favorite r)) fetched))
       \<and> (\<forall>i. i \<in> favoriteRouteIds (renderRouteHistory fetched s)
              \<longleftrightarrow> (\<exists>r \<in> set fetched. sum_id r = i \<and> truthy_flag (is_favorite r)))"
  using assms
  by (auto simp: renderRouteHistory_def shown_history_def Let_def history_entry_def o_def
      split: option.splits)

theorem history_shows_exactly_favorites_witness:
  "routes_list initial_page \<noteq> None
   \<and> map h_route_id (shown_history (renderRouteHistory
        [sample_summary 1 (FlagBool True), sample_summary 2 (FlagBool False),
         sample_summary 3 (FlagNum (Fin 1))] initial_page)) = [1, 3]
   \<and> favoriteRouteIds (renderRouteHistory
        [sample_summary 1 (FlagBool True), sample_summary 2 (FlagBool False),
         sample_summary 3 (FlagNum (Fin 1))] initial_page) = {1, 3}"
proof -
  have a: "routes_list initial_page \<noteq> None" by (simp add: initial_page_def)
  from history_shows_exactly_favorites [OF a,
      of "[sample_summary 1 (FlagBool True), sample_summary 2 (FlagBool False),
         sample_summary 3 (FlagNum (Fin 1))]"] a
  show ?thesis by (simp add: sample_summary_def history_entry_def)
qed

section \<open>Properties of the route form\<close>

lemma chosen_start_none:
  "currentStart s = None \<Longrightarrow> chosen_start s = (input_lat s, input_lon s)"
  by (simp add: chosen_start_def)

lemma chosen_start_finite_input:
  "isFinite (input_lat s) \<Longrightarrow> isFinite (input_lon s) \<Longrightarrow> chosen_start s = (input_lat s, input_lon s)"
  by (simp add: chosen_start_def split: option.splits)

lemma buildRoute_cases:
  "buildRoute s = showMessage msg_choose_start ''error'' s
   \<or> buildRoute s = showMessage msg_count_range ''error'' s
   \<or> (isFinite (fst (chosen_start s)) \<and> isFinite (snd (chosen_start s))
       \<and> \<not> js_lt (input_count s) (Fin 2) \<and> \<not> js_gt (input_count s) (Fin 20)
       \<and> buildRoute s = buildRoute_validated (fst (chosen_start s)) (snd (chosen_start s)) s)"
  by (simp add: buildRoute_def Let_def)

text \<open>
  C2 (as amended). If \<open>objects_count\<close> is a number below 2 or above 20, or the form holds
  no finite start coordinate and no point was chosen on the map, \<open>buildRoute\<close> rejects the
  request: it shows an error message and changes nothing else, so no request is sent and
  \<open>currentRoute\<close>, the markers, the line and the result panel stay as they were.
\<close>

theorem buildRoute_rejects:
  assumes "(\<not> isFinite (input_lat s) \<or> \<not> isFinite (input_lon s)) \<and> currentStart s = None
         \<or> js_lt (input_count s) (Fin 2) \<or> js_gt (input_count s) (Fin 20)"
  shows "(\<exists>text. buildRoute s = s\<lparr>message_box := Some (text, ''error'')\<rparr>)
       \<and> requests (buildRoute s) = requests s
       \<and> responses (buildRoute s) = responses s
       \<and> currentRoute (buildRoute s) = currentRoute s
       \<and> markers (buildRoute s) = markers s
       \<and> routeLine (buildRoute s) = routeLine s
       \<and> results (buildRoute s) = results s
       \<and> results_hidden (buildRoute s) = results_hidden s"
proof -
  have "buildRoute s = showMessage msg_choose_start ''error'' s
      \<or> buildRoute s = showMessage msg_count_range ''error'' s"
  proof (cases "(\<not> isFinite (input_lat s) \<or> \<not> isFinite (input_lon s)) \<and> currentStart s = None")
    case True
    then have "\<not> isFinite (fst (chosen_start s)) \<or> \<not> isFinite (snd (chosen_start s))"
      by (auto simp: chosen_start_none)
    then show ?thesis using buildRoute_cases [of s] by blast
  next
    case False
    with assms have "js_lt (input_count s) (Fin 2) \<or> js_gt (input_count s) (Fin 20)" by blast
    then show ?thesis using buildRoute_cases [of s] by blast
  qed
  then obtain t where b: "buildRoute s = s\<lparr>message_box := Some (t, ''error'')\<rparr>"
    unfolding showMessage_def by blast
  have "\<exists>text. buildRoute s = s\<lparr>message_box := Some (text, ''error'')\<rparr>"
    using b by blast
  then show ?thesis unfolding b by simp
qed

theorem buildRoute_rejects_witness:
  "js_gt (input_count (initial_page\<lparr>input_lat := Fin 55, input_lon := Fin 37, input_count := Fin 21\<rparr>)) (Fin 20)
   \<and> requests (initial_page\<lparr>input_lat := Fin 55, input_lon := Fin 37, input_count := Fin 21\<rparr>) = []
   \<and> requests (buildRoute (initial_page\<lparr>input_lat := Fin 55, input_lon := Fin 37, input_count := Fin 21\<rparr>)) = []
   \<and> currentRoute (buildRoute (initial_page\<lparr>input_lat := Fin 55, input_lon := Fin 37, input_count := Fin 21\<rparr>)) = JNull"
proof -
  let ?s = "initial_page\<lparr>input_lat := Fin 55, input_lon := Fin 37, input_count := Fin 21\<rparr>"
  have a: "js_gt (input_count ?s) (Fin 20)" by (simp add: js_gt_def)
  have c: "requests ?s = []" by (simp add: initial_page_def)
  have d: "currentRoute ?s = JNull" by (simp add: initial_page_def)
  have h: "(\<not> isFinite (input_lat ?s) \<or> \<not> isFinite (input_lon ?s)) \<and> currentStart ?s = None
         \<or> js_lt (input_count ?s) (Fin 2) \<or> js_gt (input_count ?s) (Fin 20)"
    using a by blast
  from buildRoute_rejects [OF h] a c d show ?thesis by simp
qed

lemma request_unanswered:
  "responses s = [] \<Longrightarrow>
   request ep s = (Inl (Error msg_fetch_unanswered),
                   s\<lparr>requests := requests s @ [\<lparr>target = ep, authorization = getHeaders s\<rparr>],
                     console_errors := console_errors s @ [Error msg_fetch_unanswered]\<rparr>)"
  by (simp add: request_def rethrow_def Let_def)

lemma buildRoute_validated_unanswered:
  assumes "responses s = []"
  shows "requests (buildRoute_validated lat lon s)
           = requests s @ [\<lparr>target = BuildRoute lat lon (input_count s) (input_address s),
                             authorization = getHeaders s\<rparr>]"
    and "currentRoute (buildRoute_validated lat lon s) = JNull"
    and "markers (buildRoute_validated lat lon s) = []"
proof -
  let ?s1 = "clearRoute ((showLoading True s)\<lparr>currentRoute := JNull\<rparr>)"
  have r: "responses ?s1 = []" using assms by (simp add: clearRoute_def showLoading_def)
  have h: "getHeaders ?s1 = getHeaders s" by (simp add: clearRoute_def showLoading_def getHeaders_def)
  have q: "requests ?s1 = requests s" by (simp add: clearRoute_def showLoading_def)
  have c: "currentRoute ?s1 = JNull" by (simp add: clearRoute_def showLoading_def)
  have m: "markers ?s1 = []" by (simp add: clearRoute_def showLoading_def)
  show "requests (buildRoute_validated lat lon s)
           = requests s @ [\<lparr>target = BuildRoute lat lon (input_count s) (input_address s),
                             authorization = getHeaders s\<rparr>]"
    unfolding buildRoute_validated_def Let_def api_buildRoute_def request_unanswered [OF r]
    by (simp add: showMessage_def showLoading_def clearRoute_def getHeaders_def)
  show "currentRoute (buildRoute_validated lat lon s) = JNull"
    unfolding buildRoute_validated_def Let_def api_buildRoute_def request_unanswered [OF r]
    by (simp add: showMessage_def showLoading_def clearRoute_def)
  show "markers (buildRoute_validated lat lon s) = []"
    unfolding buildRoute_validated_def Let_def api_buildRoute_def request_unanswered [OF r]
    by (simp add: showMessage_def showLoading_def clearRoute_def)
qed

text \<open>
  C2 as stated fails: a finite latitude outside [-90, 90] passes the validation of
  \<open>buildRoute\<close>, which tests finiteness only. With latitude 100 the request is sent and
  the current route is reset.
\<close>

theorem buildRoute_sends_invalid_latitude:
  "js_gt (input_lat out_of_range_page) (Fin 90)
   \<and> requests out_of_range_page = []
   \<and> requests (buildRoute out_of_range_page)
     = [\<lparr>target = BuildRoute (Fin 100) (Fin 37) (Fin 5) [], authorization = None\<rparr>]
   \<and> currentRoute out_of_range_page = JRoute unsorted_route
   \<and> currentRoute (buildRoute out_of_range_page) = JNull"
proof -
  have f: "input_lat out_of_range_page = Fin 100" "input_lon out_of_range_page = Fin 37"
    "input_count out_of_range_page = Fin 5" "input_address out_of_range_page = []"
    "requests out_of_range_page = []" "responses out_of_range_page = []"
    "currentStart out_of_range_page = None" "token out_of_range_page = None"
    "currentRoute out_of_range_page = JRoute unsorted_route"
    by (simp_all add: out_of_range_page_def initial_page_def)
  have cs: "chosen_start out_of_range_page = (Fin 100, Fin 37)"
    by (simp add: chosen_start_def f)
  have b: "buildRoute out_of_range_page = buildRoute_validated (Fin 100) (Fin 37) out_of_range_page"
    by (simp add: buildRoute_def cs f js_gt_def)
  show ?thesis
    unfolding b buildRoute_validated_unanswered [OF f(6)] f
    by (simp add: js_gt_def getHeaders_def f)
qed

section \<open>Properties of the route display\<close>

lemma mset_insert_by: "mset (insert_by cmp x xs) = add_mset x (mset xs)"
  by (induction xs) auto

lemma mset_js_sort: "mset (js_sort cmp xs) = mset xs"
  by (induction xs) (auto simp: js_sort_def mset_insert_by)

lemma set_insert_by: "set (insert_by cmp x xs) = insert x (set xs)"
  by (induction xs) auto

lemma seq_le_finite:
  assumes "isFinite (sequence_number a)" "isFinite (sequence_number b)"
  shows "seq_le a b \<longleftrightarrow> sequence_compare a b \<le> 0"
  using assms
  by (cases "sequence_number a"; cases "sequence_number b") (simp_all add: seq_le_def sequence_compare_def)

lemma seq_le_total:
  assumes "isFinite (sequence_number a)" "isFinite (sequence_number b)"
  shows "\<not> sequence_compare a b \<le> 0 \<Longrightarrow> seq_le b a"
  using assms
  by (cases "sequence_number a"; cases "sequence_number b") (simp_all add: seq_le_def sequence_compare_def)

lemma seq_le_trans: "seq_le a b \<Longrightarrow> seq_le b c \<Longrightarrow> seq_le a c"
  by (cases "sequence_number a"; cases "sequence_number b"; cases "sequence_number c")
     (simp_all add: seq_le_def sequence_compare_def)

lemma sorted_insert_by:
  assumes "isFinite (sequence_number x)" "\<forall>l \<in> set xs. isFinite (sequence_number l)"
    "sorted_wrt seq_le xs"
  shows "sorted_wrt seq_le (insert_by sequence_compare x xs)"
  using assms
proof (induction xs)
  case Nil
  then show ?case by simp
next
  case (Cons y ys)
  show ?case
  proof (cases "sequence_compare x y \<le> 0")
    case True
    then have xy: "seq_le x y" using Cons.prems(1,2) by (simp add: seq_le_finite)
    have "\<forall>z \<in> set ys. seq_le x z"
      using xy Cons.prems(3) by (auto intro: seq_le_trans)
    with True xy Cons.prems(3) show ?thesis by simp
  next
    case False
    then have yx: "seq_le y x" using Cons.prems(1,2) by (simp add: seq_le_total)
    have "sorted_wrt seq_le (insert_by sequence_compare x ys)"
      using Cons.IH Cons.prems by simp
    with False yx Cons.prems(3) show ?thesis
      by (auto simp: set_insert_by)
  qed
qed

lemma sorted_js_sort:
  assumes "\<forall>l \<in> set xs. isFinite (sequence_number l)"
  shows "sorted_wrt seq_le (js_sort sequence_compare xs)"
  using assms
proof (induction xs)
  case Nil
  then show ?case by (simp add: js_sort_def)
next
  case (Cons x xs)
  have s: "set (js_sort sequence_compare xs) = set xs"
    using mset_js_sort [of sequence_compare xs] by (metis set_mset_mset)
  have "sorted_wrt seq_le (insert_by sequence_compare x (js_sort sequence_compare xs))"
    using Cons by (intro sorted_insert_by) (simp_all add: s)
  then show ?case by (simp add: js_sort_def)
qed

lemma displayRoute_markers:
  "markers (snd (displayRoute (JRoute r) s))
     = map_indexed route_marker (js_sort sequence_compare (objects r))"
  by (simp add: displayRoute_def clearRoute_def drawStraightRoute_def displayRouteInfo_def Let_def)

lemma displayRoute_line:
  "routeLine (snd (displayRoute (JRoute r) s))
     = Some (start_location r #
             map (\<lambda>item. (latitude (object item), longitude (object item)))
                 (js_sort sequence_compare (objects r)))"
  by (simp add: displayRoute_def clearRoute_def drawStraightRoute_def displayRouteInfo_def Let_def)

lemma displayRoute_cards:
  "map_option r_cards (results (snd (displayRoute (JRoute r) s)))
     = Some (map_indexed renderObjectCard (objects r))"
  by (simp add: displayRoute_def clearRoute_def drawStraightRoute_def displayRouteInfo_def Let_def)

text \<open>
  C5. \<open>displayRoute\<close> sorts the legs for the markers and the line, but the cards are
  rendered from \<open>route.objects\<close> as received: for a route whose two legs arrive with
  sequence numbers 2 and 1, the markers are in ascending order and the cards are not.
\<close>

theorem displayRoute_cards_not_sorted:
  "map m_name (markers (snd (displayRoute (JRoute unsorted_route) initial_page)))
     = [''Tower'', ''Bridge'']
   \<and> map_option (\<lambda>r. map c_name (r_cards r))
        (results (snd (displayRoute (JRoute unsorted_route) initial_page)))
     = Some [''Bridge'', ''Tower'']
   \<and> map sequence_number (objects unsorted_route) = [Fin 2, Fin 1]"
  by (simp add: displayRoute_def unsorted_route_def initial_page_def clearRoute_def
      drawStraightRoute_def displayRouteInfo_def js_sort_def map_indexed_def route_marker_def
      renderObjectCard_def sequence_compare_def sample_object_def sample_object_b_def Let_def)

section \<open>Properties of the distance function\<close>

lemma haversine_sym: "haversine p q = haversine q p"
proof -
  have a: "(radians (py p) - radians (py q)) / 2 = - ((radians (py q) - radians (py p)) / 2)"
    by (simp add: field_simps)
  have b: "(radians (px p) - radians (px q)) / 2 = - ((radians (px q) - radians (px p)) / 2)"
    by (simp add: field_simps)
  show ?thesis
    unfolding haversine_def a b sin_minus by (simp add: mult.commute)
qed

lemma haversine_same: "haversine p p = 0"
  by (simp add: haversine_def)

lemma cos_radians_nonneg:
  assumes "- 90 \<le> d" "d \<le> 90"
  shows "0 \<le> cos (radians d)"
proof (rule cos_ge_zero)
  have "(- 90) * (pi / 180) \<le> d * (pi / 180)"
    using assms(1) by (intro mult_right_mono) simp_all
  then show "- (pi / 2) \<le> radians d" by (simp add: radians_def)
  have "d * (pi / 180) \<le> 90 * (pi / 180)"
    using assms(2) by (intro mult_right_mono) simp_all
  then show "radians d \<le> pi / 2" by (simp add: radians_def)
qed

lemma haversine_nonneg:
  assumes "valid_point p" "valid_point q"
  shows "0 \<le> haversine p q"
proof -
  have "0 \<le> cos (radians (py p)) * cos (radians (py q))"
    using assms by (simp add: valid_point_def cos_radians_nonneg)
  then show ?thesis
    by (simp add: haversine_def)
qed

lemma haversine_le_one:
  assumes "valid_point p" "valid_point q"
  shows "haversine p q \<le> 1"
proof -
  let ?f = "radians (py p)" and ?g = "radians (py q)"
  let ?s = "(sin ((radians (px q) - radians (px p)) / 2))\<^sup>2"
  have c: "0 \<le> cos ?f * cos ?g"
    using assms by (simp add: valid_point_def cos_radians_nonneg)
  have s1: "?s \<le> 1" by (simp add: abs_square_le_1)
  have "cos ?f * cos ?g * ?s \<le> cos ?f * cos ?g * 1"
    using c s1 by (rule mult_left_mono [rotated])
  then have step: "haversine p q \<le> (sin ((?g - ?f) / 2))\<^sup>2 + cos ?f * cos ?g"
    by (simp add: haversine_def)
  have "2 * ((?g - ?f) / 2) = ?g - ?f" by simp
  then have "cos (?g - ?f) = 1 - 2 * (sin ((?g - ?f) / 2))\<^sup>2"
    using cos_double_sin [of "(?g - ?f) / 2"] by metis
  then have "(sin ((?g - ?f) / 2))\<^sup>2 = (1 - cos (?g - ?f)) / 2" by simp
  also have "\<dots> = (1 - cos ?g * cos ?f - sin ?g * sin ?f) / 2"
    by (simp add: cos_diff)
  finally have "(sin ((?g - ?f) / 2))\<^sup>2 + cos ?f * cos ?g = (1 + cos (?g + ?f)) / 2"
    by (simp add: cos_add field_simps)
  also have "\<dots> \<le> 1" using cos_le_one [of "?g + ?f"] by simp
  finally show ?thesis using step by simp
qed

lemma sphere_distance_bounds:
  assumes "valid_point p" "valid_point q"
  shows "0 \<le> 2 * earth_radius * arcsin (sqrt (haversine p q))"
    and "2 * earth_radius * arcsin (sqrt (haversine p q)) < 30000000"
proof -
  let ?h = "sqrt (haversine p q)"
  have h0: "0 \<le> ?h" using haversine_nonneg [OF assms] by simp
  have h1: "?h \<le> 1" using haversine_le_one [OF assms] by simp
  have a0: "0 \<le> arcsin ?h" using h0 h1 by (simp add: arcsin_nonneg)
  have "- 1 \<le> ?h" using h0 by linarith
  then have "arcsin ?h \<le> pi / 2" using h1 by (rule arcsin_ubound)
  then have a1: "arcsin ?h < 2" using pi_less_4 by simp
  show "0 \<le> 2 * earth_radius * arcsin ?h" using a0 by (simp add: earth_radius_def)
  have "2 * earth_radius * arcsin ?h < 2 * earth_radius * 2"
    using a1 by (intro mult_strict_left_mono) (simp_all add: earth_radius_def)
  then show "2 * earth_radius * arcsin ?h < 30000000" by (simp add: earth_radius_def)
qed

lemma decimal_10_2_defined:
  assumes "0 \<le> x" "x < 30000000"
  shows "\<exists>d. decimal_10_2 x = Inr d \<and> 0 \<le> d"
proof -
  have lo: "0 \<le> round (x * 100)" using assms(1) by (simp add: round_def)
  have "round (x * 100) \<le> round (3000000000 :: real)"
    using assms(2) by (intro round_mono) simp
  then have hi: "round (x * 100) \<le> 3000000000" by simp
  have "\<bar>round (x * 100)\<bar> < 10 ^ 10" using lo hi by simp
  then have "decimal_10_2 x = Inr (real_of_int (round (x * 100)) / 100)"
    by (simp add: decimal_10_2_def)
  moreover have "0 \<le> real_of_int (round (x * 100)) / 100" using lo by simp
  ultimately show ?thesis by blast
qed

text \<open>
  C6. For valid coordinates the distance is defined, symmetric and non-negative, and the
  distance of a point to itself is 0.
\<close>

theorem distance_properties:
  assumes "valid_point a" and "valid_point b"
  shows "(\<exists>d. calculate_distance a b = Inr d \<and> calculate_distance b a = Inr d \<and> 0 \<le> d)
       \<and> calculate_distance a a = Inr 0"
proof -
  let ?raw = "2 * earth_radius * arcsin (sqrt (haversine a b))"
  have ab: "ST_Distance_Sphere a b = Inr ?raw" using assms by (simp add: ST_Distance_Sphere_def)
  have ba: "ST_Distance_Sphere b a = Inr ?raw"
    using assms by (simp add: ST_Distance_Sphere_def haversine_sym [of b a])
  obtain d where d: "decimal_10_2 ?raw = Inr d" "0 \<le> d"
    using decimal_10_2_defined [OF sphere_distance_bounds [OF assms]] by blast
  have sym: "\<exists>d. calculate_distance a b = Inr d \<and> calculate_distance b a = Inr d \<and> 0 \<le> d"
    using d by (simp add: calculate_distance_def ab ba)
  have same: "calculate_distance a a = Inr 0"
    using assms(1)
    by (simp add: calculate_distance_def ST_Distance_Sphere_def haversine_same decimal_10_2_def)
  from sym same show ?thesis by blast
qed

theorem distance_properties_witness:
  "valid_point \<lparr>px = 37.6208, py = 55.7539\<rparr>
   \<and> valid_point \<lparr>px = 37.6, py = 55.75\<rparr>
   \<and> (\<exists>d. calculate_distance \<lparr>px = 37.6208, py = 55.7539\<rparr> \<lparr>px = 37.6, py = 55.75\<rparr> = Inr d
          \<and> calculate_distance \<lparr>px = 37.6, py = 55.75\<rparr> \<lparr>px = 37.6208, py = 55.7539\<rparr> = Inr d
          \<and> 0 \<le> d)
   \<and> calculate_distance \<lparr>px = 37.6208, py = 55.7539\<rparr> \<lparr>px = 37.6208, py = 55.7539\<rparr> = Inr 0"
proof -
  have a: "valid_point \<lparr>px = 37.6208, py = 55.7539\<rparr>" by (simp add: valid_point_def)
  have b: "valid_point \<lparr>px = 37.6, py = 55.75\<rparr>" by (simp add: valid_point_def)
  from distance_properties [OF a b] a b show ?thesis by blast
qed

section \<open>Properties of the schema\<close>

lemma distinct_keys_filter:
  "distinct (map f xs) \<Longrightarrow> distinct (map f (filter P xs))"
  by (simp add: distinct_map_filter)

lemma free_iff:
  "unique_route_object_free rid oid rows
     \<longleftrightarrow> (rid, oid) \<notin> set (map (\<lambda>r. (ro_route_id r, ro_object_id r)) rows)"
  by (auto simp: unique_route_object_free_def list_ex_iff)

lemma insert_route_object_unique:
  assumes "unique_route_object db" "insert_route_object rid oid sq d db = Inr db'"
  shows "unique_route_object db'"
  using assms
  by (auto simp: insert_route_object_def unique_route_object_def route_object_keys_def free_iff
      split: if_splits)

lemma map_update_single:
  assumes "length (filter (\<lambda>r. ro_id r = i) rows) \<le> 1"
  shows "map (\<lambda>r. (ro_route_id r, ro_object_id r))
           (map (\<lambda>r. if ro_id r = i then r\<lparr>ro_route_id := rid, ro_object_id := oid\<rparr> else r) rows)
         = map (\<lambda>r. if ro_id r = i then (rid, oid) else (ro_route_id r, ro_object_id r)) rows"
  by (induction rows) auto

lemma update_keys_distinct:
  assumes "distinct (map (\<lambda>r. (ro_route_id r, ro_object_id r)) rows)"
    and "length (filter (\<lambda>r. ro_id r = i) rows) \<le> 1"
    and "(rid, oid) \<notin> set (map (\<lambda>r. (ro_route_id r, ro_object_id r))
                               (filter (\<lambda>r. ro_id r \<noteq> i) rows))"
  shows "distinct (map (\<lambda>r. if ro_id r = i then (rid, oid) else (ro_route_id r, ro_object_id r)) rows)"
  using assms
proof (induction rows)
  case Nil
  then show ?case by simp
next
  case (Cons r rows)
  show ?case
  proof (cases "ro_id r = i")
    case True
    with Cons.prems(2) have none: "filter (\<lambda>r. ro_id r = i) rows = []" by simp
    then have same: "map (\<lambda>r. if ro_id r = i then (rid, oid) else (ro_route_id r, ro_object_id r)) rows
                = map (\<lambda>r. (ro_route_id r, ro_object_id r)) rows"
      by (auto simp: filter_empty_conv)
    have all: "filter (\<lambda>r. ro_id r \<noteq> i) rows = rows"
      using none by (auto simp: filter_empty_conv filter_id_conv)
    from Cons.prems True show ?thesis by (simp add: same all)
  next
    case False
    with Cons.prems have d: "distinct (map (\<lambda>r. (ro_route_id r, ro_object_id r)) rows)"
      and l: "length (filter (\<lambda>r. ro_id r = i) rows) \<le> 1"
      and n: "(rid, oid) \<notin> set (map (\<lambda>r. (ro_route_id r, ro_object_id r))
                               (filter (\<lambda>r. ro_id r \<noteq> i) rows))"
      and ne: "(rid, oid) \<noteq> (ro_route_id r, ro_object_id r)"
      and notin: "(ro_route_id r, ro_object_id r) \<notin> set (map (\<lambda>r. (ro_route_id r, ro_object_id r)) rows)"
      by auto
    have "(ro_route_id r, ro_object_id r)
            \<notin> set (map (\<lambda>r. if ro_id r = i then (rid, oid) else (ro_route_id r, ro_object_id r)) rows)"
      using notin ne by (auto split: if_splits)
    with Cons.IH [OF d l n] False show ?thesis by simp
  qed
qed

lemma update_route_object_unique:
  assumes "unique_route_object db" "update_route_object i rid oid db = Inr db'"
  shows "unique_route_object db'"
proof (cases "list_ex (\<lambda>r. ro_id r = i) (route_objects db)")
  case False
  with assms show ?thesis by (simp add: update_route_object_def)
next
  case True
  with assms(2) have l: "length (filter (\<lambda>r. ro_id r = i) (route_objects db)) \<le> 1"
    and n: "(rid, oid) \<notin> set (map (\<lambda>r. (ro_route_id r, ro_object_id r))
                               (filter (\<lambda>r. ro_id r \<noteq> i) (route_objects db)))"
    and db': "db' = db\<lparr>route_objects :=
                    map (\<lambda>r. if ro_id r = i
                              then r\<lparr>ro_route_id := rid, ro_object_id := oid\<rparr> else r)
                        (route_objects db)\<rparr>"
    by (auto simp: update_route_object_def free_iff split: if_splits)
  from assms(1) have d: "distinct (map (\<lambda>r. (ro_route_id r, ro_object_id r)) (route_objects db))"
    by (simp add: unique_route_object_def route_object_keys_def)
  have "route_object_keys db'
          = map (\<lambda>r. if ro_id r = i then (rid, oid) else (ro_route_id r, ro_object_id r))
                (route_objects db)"
    using map_update_single [OF l, where rid = rid and oid = oid]
    by (simp add: db' route_object_keys_def del: map_map)
  then show ?thesis
    using update_keys_distinct [OF d l n] by (simp add: unique_route_object_def)
qed

lemma execute_unique:
  assumes "unique_route_object db" "execute st db = Inr db'"
  shows "unique_route_object db'"
proof (cases st)
  case (InsertRouteObject rid oid sq d)
  with assms show ?thesis by (simp add: insert_route_object_unique)
next
  case (UpdateRouteObject i rid oid)
  with assms show ?thesis by (simp add: update_route_object_unique)
qed (use assms in \<open>auto simp: unique_route_object_def route_object_keys_def insert_user_def
      insert_heritage_object_def insert_route_def delete_route_object_def delete_route_def
      delete_heritage_object_def delete_user_def Let_def distinct_map_filter split: if_splits\<close>)

lemma run_unique: "unique_route_object db \<Longrightarrow> unique_route_object (run sts db)"
proof (induction sts arbitrary: db)
  case Nil
  then show ?case by simp
next
  case (Cons st sts)
  then show ?case
    by (cases "execute st db") (auto dest: execute_unique)
qed

lemma legs_distinct:
  assumes "unique_route_object db"
  shows "distinct (map ro_object_id (route_legs rid db))"
proof -
  have "distinct (map (\<lambda>r. (ro_route_id r, ro_object_id r)) (route_legs rid db))"
    using assms
    by (simp add: unique_route_object_def route_object_keys_def route_legs_def distinct_map_filter)
  moreover have "map (\<lambda>r. (ro_route_id r, ro_object_id r)) (route_legs rid db)
                 = map (\<lambda>oid. (rid, oid)) (map ro_object_id (route_legs rid db))"
    by (simp add: route_legs_def comp_def cong: map_cong)
  ultimately show ?thesis
    by (metis distinct_map)
qed

text \<open>
  C4. No heritage object appears twice within a route: the pairs (route id, object id)
  of the stored legs stay pairwise different under every sequence of statements, those
  that record legs included, so the object ids of the legs of each route are distinct.
\<close>

theorem route_object_unique_invariant:
  assumes "unique_route_object db"
  shows "unique_route_object (run sts db)
       \<and> (\<forall>rid. distinct (map ro_object_id (route_legs rid (run sts db))))"
  using run_unique [OF assms] legs_distinct by blast

theorem route_object_unique_invariant_witness:
  "unique_route_object sample_database
   \<and> map (\<lambda>r. (ro_route_id r, ro_object_id r))
       (route_objects (run [InsertRouteObject 1 7 1 None, InsertRouteObject 1 8 2 (Some 300),
                            InsertRouteObject 1 7 3 (Some 120)] sample_database))
     = [(1, 7), (1, 8)]
   \<and> unique_route_object (run [InsertRouteObject 1 7 1 None, InsertRouteObject 1 8 2 (Some 300),
                            InsertRouteObject 1 7 3 (Some 120)] sample_database)"
proof -
  have a: "unique_route_object sample_database"
    by (simp add: unique_route_object_def route_object_keys_def sample_database_def)
  have b: "map (\<lambda>r. (ro_route_id r, ro_object_id r))
       (route_objects (run [InsertRouteObject 1 7 1 None, InsertRouteObject 1 8 2 (Some 300),
                            InsertRouteObject 1 7 3 (Some 120)] sample_database))
     = [(1, 7), (1, 8)]"
    by (simp add: insert_route_object_def sample_database_def sample_route_row_def
        unique_route_object_free_def)
  from route_object_unique_invariant [OF a] a b show ?thesis by blast
qed

section \<open>Properties of the route store\<close>

lemma find_map_favorite:
  "find (owned_by rid uid)
        (map (\<lambda>x. if owned_by rid uid x then x\<lparr>rt_is_favorite := Some v\<rparr> else x) xs)
   = map_option (\<lambda>x. x\<lparr>rt_is_favorite := Some v\<rparr>) (find (owned_by rid uid) xs)"
  by (induction xs) (auto simp: owned_by_def)

lemma map_favorite_idem:
  "map (\<lambda>x. if owned_by rid uid x then x\<lparr>rt_is_favorite := Some v\<rparr> else x)
       (map (\<lambda>x. if owned_by rid uid x then x\<lparr>rt_is_favorite := Some v\<rparr> else x) xs)
   = map (\<lambda>x. if owned_by rid uid x then x\<lparr>rt_is_favorite := Some v\<rparr> else x) xs"
  by (induction xs) (auto simp: owned_by_def)

lemma find_unique_row:
  assumes "distinct (map rt_id xs)" "find (owned_by rid uid) xs = Some r" "x \<in> set xs"
    "owned_by rid uid x"
  shows "x = r"
  using assms
proof (induction xs)
  case Nil
  then show ?case by simp
next
  case (Cons y ys)
  show ?case
  proof (cases "owned_by rid uid y")
    case True
    with Cons.prems have r: "r = y" by simp
    show ?thesis
    proof (cases "x = y")
      case True
      with r show ?thesis by simp
    next
      case False
      with Cons.prems(3) have "x \<in> set ys" by simp
      then have "rt_id x \<in> set (map rt_id ys)" by simp
      moreover have "rt_id x = rt_id y"
        using Cons.prems(4) \<open>owned_by rid uid y\<close> by (simp add: owned_by_def)
      ultimately show ?thesis using Cons.prems(1) by simp
    qed
  next
    case False
    with Cons.prems show ?thesis by (auto intro: Cons.IH)
  qed
qed

lemma map_favorite_same:
  assumes "distinct (map rt_id xs)" "find (owned_by rid uid) xs = Some r"
    "rt_is_favorite r = Some v"
  shows "map (\<lambda>x. if owned_by rid uid x then x\<lparr>rt_is_favorite := Some v\<rparr> else x) xs = xs"
proof -
  have "\<And>x. x \<in> set xs \<Longrightarrow> owned_by rid uid x \<Longrightarrow> x\<lparr>rt_is_favorite := Some v\<rparr> = x"
  proof -
    fix x assume "x \<in> set xs" "owned_by rid uid x"
    then have "x = r" using find_unique_row [OF assms(1,2)] by simp
    then show "x\<lparr>rt_is_favorite := Some v\<rparr> = x" using assms(3) by simp
  qed
  then show ?thesis by (simp add: map_idI)
qed

text \<open>
  C7. For a route owned by the user, \<open>setFavorite\<close> succeeds and returns the route with
  the flag set; applying it again with the same value succeeds with the same result and
  the same database; and setting the flag to the value it already has changes nothing.
\<close>

theorem setFavorite_idempotent:
  assumes "get_route routeId userId db = Inr r" and "distinct (map rt_id (routes db))"
  shows "\<exists>db' r'. setFavorite routeId userId v db = Inr (db', r')
           \<and> rt_is_favorite r' = Some v
           \<and> get_route routeId userId db' = Inr r'
           \<and> setFavorite routeId userId v db' = Inr (db', r')
           \<and> (rt_is_favorite r = Some v \<longrightarrow> db' = db \<and> r' = r)"
proof -
  let ?f = "\<lambda>x. if owned_by routeId userId x then x\<lparr>rt_is_favorite := Some v\<rparr> else x"
  let ?db = "db\<lparr>routes := map ?f (routes db)\<rparr>"
  let ?r = "r\<lparr>rt_is_favorite := Some v\<rparr>"
  from assms(1) have f: "find (owned_by routeId userId) (routes db) = Some r"
    by (simp add: get_route_def split: option.splits)
  have one: "setFavorite routeId userId v db = Inr (?db, ?r)"
    using assms(1) by (simp add: setFavorite_def)
  have get: "get_route routeId userId ?db = Inr ?r"
    by (simp add: get_route_def find_map_favorite f)
  have two: "setFavorite routeId userId v ?db = Inr (?db, ?r)"
    by (simp add: setFavorite_def get map_favorite_idem)
  have same: "rt_is_favorite r = Some v \<longrightarrow> ?db = db \<and> ?r = r"
    using map_favorite_same [OF assms(2) f] by simp
  from one get two same show ?thesis by simp
qed

theorem setFavorite_idempotent_witness:
  "get_route 1 10 sample_database = Inr sample_route_row
   \<and> distinct (map rt_id (routes sample_database))
   \<and> (\<exists>db' r'. setFavorite 1 10 True sample_database = Inr (db', r')
         \<and> rt_is_favorite r' = Some True
         \<and> setFavorite 1 10 True db' = Inr (db', r'))"
proof -
  have a: "get_route 1 10 sample_database = Inr sample_route_row"
    by (simp add: get_route_def sample_database_def sample_route_row_def owned_by_def)
  have b: "distinct (map rt_id (routes sample_database))"
    by (simp add: sample_database_def)
  from setFavorite_idempotent [OF a b, of True] a b show ?thesis by blast
qed

end
